theory Spec2Isabelle
  imports Main "HOL-Library.Sublist"
begin

section \<open>Python strings and containers\<close>

text \<open>
  The program is \<^verbatim>\<open>sdrf_pipelines/openms/openms.py\<close>. Python strings are modelled as
  \<^typ>\<open>string\<close>; the case mappings and the whitespace class are the ASCII ones, which
  is what the controlled vocabulary of the input table uses. Exceptions are values of
  the type \<open>error\<close>, and a function that can raise returns \<open>error + 'a\<close>.
\<close>

datatype error = ValueError | RuntimeError | KeyError | AttributeError | IndexError

definition ascii_upper :: string where
  "ascii_upper = ''ABCDEFGHIJKLMNOPQRSTUVWXYZ''"

definition ascii_lower :: string where
  "ascii_lower = ''abcdefghijklmnopqrstuvwxyz''"

definition lower_char :: "char \<Rightarrow> char" where
  "lower_char c = (case map_of (zip ascii_upper ascii_lower) c of None \<Rightarrow> c | Some d \<Rightarrow> d)"

definition upper_char :: "char \<Rightarrow> char" where
  "upper_char c = (case map_of (zip ascii_lower ascii_upper) c of None \<Rightarrow> c | Some d \<Rightarrow> d)"

text \<open>\<^verbatim>\<open>s.lower()\<close>\<close>

definition py_lower :: "string \<Rightarrow> string" where
  "py_lower s = map lower_char s"

text \<open>\<^verbatim>\<open>s.capitalize()\<close>: first character upper case, the rest lower case.\<close>

fun py_capitalize :: "string \<Rightarrow> string" where
  "py_capitalize [] = []"
| "py_capitalize (c # cs) = upper_char c # map lower_char cs"

text \<open>\<^verbatim>\<open>sub in s\<close> on strings: \<open>sub\<close> occurs in \<open>s\<close> as a contiguous block.\<close>

fun py_in :: "string \<Rightarrow> string \<Rightarrow> bool" where
  "py_in sub [] = (sub = [])"
| "py_in sub (c # cs) = (prefix sub (c # cs) \<or> py_in sub cs)"

text \<open>\<^verbatim>\<open>s.endswith(suf)\<close> is \<^term>\<open>suffix suf s\<close>; \<^verbatim>\<open>s.removesuffix(suf)\<close>:\<close>

definition py_removesuffix :: "string \<Rightarrow> string \<Rightarrow> string" where
  "py_removesuffix s suf = (if suffix suf s then take (length s - length suf) s else s)"

text \<open>
  \<^verbatim>\<open>s.split(sep)\<close> for a non-empty separator: the pieces between the non-overlapping
  occurrences of \<open>sep\<close>, found from the left. The counter is the number of characters
  of a separator just matched that are still to be skipped; \<open>acc\<close> is the piece being
  read.
\<close>

fun split_aux :: "string \<Rightarrow> nat \<Rightarrow> string \<Rightarrow> string \<Rightarrow> string list" where
  "split_aux sep k acc [] = [acc]"
| "split_aux sep (Suc k) acc (c # cs) = split_aux sep k acc cs"
| "split_aux sep 0 acc (c # cs) =
     (if prefix sep (c # cs) then acc # split_aux sep (length sep - 1) [] cs
      else split_aux sep 0 (acc @ [c]) cs)"

definition py_split :: "string \<Rightarrow> string \<Rightarrow> string list" where
  "py_split sep s = split_aux sep 0 [] s"

text \<open>\<^verbatim>\<open>sep.join(xs)\<close>\<close>

fun py_join :: "string \<Rightarrow> string list \<Rightarrow> string" where
  "py_join sep [] = []"
| "py_join sep [x] = x"
| "py_join sep (x # y # ys) = x @ sep @ py_join sep (y # ys)"

text \<open>\<^verbatim>\<open>s.replace(old, new)\<close> for a non-empty \<open>old\<close>, with the same skip counter.\<close>

fun replace_aux :: "string \<Rightarrow> string \<Rightarrow> nat \<Rightarrow> string \<Rightarrow> string" where
  "replace_aux old new k [] = []"
| "replace_aux old new (Suc k) (c # cs) = replace_aux old new k cs"
| "replace_aux old new 0 (c # cs) =
     (if prefix old (c # cs) then new @ replace_aux old new (length old - 1) cs
      else c # replace_aux old new 0 cs)"

definition py_replace :: "string \<Rightarrow> string \<Rightarrow> string \<Rightarrow> string" where
  "py_replace old new s = replace_aux old new 0 s"

text \<open>\<^verbatim>\<open>s.strip()\<close>: the ASCII whitespace characters of Python's \<^verbatim>\<open>str.isspace\<close>.\<close>

definition py_isspace :: "char \<Rightarrow> bool" where
  "py_isspace c = (c \<in> set [CHR 0x09, CHR 0x0A, CHR 0x0B, CHR 0x0C, CHR 0x0D,
                            CHR 0x1C, CHR 0x1D, CHR 0x1E, CHR 0x1F, CHR 0x20])"

definition py_strip :: "string \<Rightarrow> string" where
  "py_strip s = rev (dropWhile py_isspace (rev (dropWhile py_isspace s)))"

text \<open>
  A Python \<^verbatim>\<open>dict\<close> whose iteration order matters is an association list in insertion
  order: assigning to a key that is present keeps its place and replaces its value.
\<close>

fun dict_set :: "('k \<times> 'v) list \<Rightarrow> 'k \<Rightarrow> 'v \<Rightarrow> ('k \<times> 'v) list" where
  "dict_set [] k v = [(k, v)]"
| "dict_set ((k', v') # d) k v = (if k' = k then (k, v) # d else (k', v') # dict_set d k v)"

section \<open>TMT plex inference\<close>

text \<open>\<^verbatim>\<open>infer_tmtplex(label_set)\<close>; \<^verbatim>\<open>len\<close> of a Python set is \<^const>\<open>card\<close>.\<close>

definition infer_tmtplex :: "string set \<Rightarrow> string" where
  "infer_tmtplex label_set =
     (if card label_set > 16 \<or> ''TMT134C'' \<in> label_set \<or> ''TMT135N'' \<in> label_set
      then ''tmt18plex''
      else if card label_set > 11
           \<or> ''TMT134N'' \<in> label_set
           \<or> ''TMT133C'' \<in> label_set
           \<or> ''TMT133N'' \<in> label_set
           \<or> ''TMT132C'' \<in> label_set
           \<or> ''TMT132N'' \<in> label_set
      then ''tmt16plex''
      else if card label_set = 11 \<or> ''TMT131C'' \<in> label_set
      then ''tmt11plex''
      else if card label_set > 6
      then ''tmt10plex''
      else ''tmt6plex'')"

text \<open>
  The marker tokens that the first and the second rung of \<^verbatim>\<open>infer_tmtplex\<close> test for, and
  two label sets of eleven channels: the full 11-plex catalogue, and eleven channels of an
  18-plex kit.
\<close>

definition tmt18_markers :: "string set" where
  "tmt18_markers = {''TMT134C'', ''TMT135N''}"

definition tmt16_markers :: "string set" where
  "tmt16_markers = {''TMT134N'', ''TMT133C'', ''TMT133N'', ''TMT132C'', ''TMT132N''}"

definition labels_11plex :: "string set" where
  "labels_11plex = {''TMT126'', ''TMT127N'', ''TMT127C'', ''TMT128N'', ''TMT128C'', ''TMT129N'',
        ''TMT129C'', ''TMT130N'', ''TMT130C'', ''TMT131N'', ''TMT131C''}"

definition labels_11_of_18plex :: "string set" where
  "labels_11_of_18plex = {''TMT126'', ''TMT127N'', ''TMT127C'', ''TMT128N'', ''TMT128C'', ''TMT129N'',
        ''TMT129C'', ''TMT130N'', ''TMT130C'', ''TMT131C'', ''TMT135N''}"

section \<open>File-extension remapping\<close>

text \<open>
  \<^verbatim>\<open>get_openms_file_name(raw, extension_convert)\<close>. The first loop fills
  \<^verbatim>\<open>extension_convert_dict\<close>; the tuple unpacking of \<^verbatim>\<open>extension_convert.split(":")\<close>
  raises \<^verbatim>\<open>ValueError\<close> unless the item has exactly one colon.
\<close>

definition possible_extension :: "string list" where
  "possible_extension = [''raw'', ''mzML'', ''mzml'', ''d'']"

fun build_extension_dict ::
  "string list \<Rightarrow> (string \<times> string) list \<Rightarrow> error + (string \<times> string) list" where
  "build_extension_dict [] d = Inr d"
| "build_extension_dict (item # items) d =
     (case py_split '':'' item of
        [current_extension, new_extension] \<Rightarrow>
          build_extension_dict items (dict_set d current_extension new_extension)
      | _ \<Rightarrow> Inl ValueError)"

text \<open>The second loop, over \<^verbatim>\<open>extension_convert_dict.items()\<close>.\<close>

fun convert_loop :: "string \<Rightarrow> (string \<times> string) list \<Rightarrow> error + string" where
  "convert_loop raw [] = Inr raw"
| "convert_loop raw ((current_extension, target_extension) # rest) =
     (if suffix (py_lower current_extension) (py_lower raw)
      then (let raw' = py_removesuffix raw current_extension @ target_extension
            in if \<not> list_ex (\<lambda>x. suffix x raw') possible_extension
               then Inl RuntimeError
               else Inr raw')
      else convert_loop raw rest)"

definition get_openms_file_name :: "string \<Rightarrow> string option \<Rightarrow> error + string" where
  "get_openms_file_name raw extension_convert =
     (case extension_convert of
        None \<Rightarrow> Inr raw
      | Some spec \<Rightarrow>
          (case build_extension_dict (py_split '','' spec) [] of
             Inl e \<Rightarrow> Inl e
           | Inr extension_convert_dict \<Rightarrow> convert_loop raw extension_convert_dict))"

text \<open>The test of the second loop: the rule's source extension ends the lower-cased name.\<close>

definition rule_matches :: "string \<Rightarrow> string \<times> string \<Rightarrow> bool" where
  "rule_matches raw rule = suffix (py_lower (fst rule)) (py_lower raw)"

section \<open>Tolerance cells\<close>

text \<open>
  \<^verbatim>\<open>parse_tolerance(pc_tol_str, units)\<close>. The function reports through
  \<^verbatim>\<open>logger.warning\<close>; the model returns the messages logged by the call next to its
  result, also when \<^verbatim>\<open>float(tol)\<close> raises. \<open>float_accepts\<close> stands for the strings that
  Python's built-in \<^verbatim>\<open>float\<close> accepts. \<^verbatim>\<open>str.split\<close> raises \<^verbatim>\<open>ValueError\<close> on an
  empty separator.
\<close>

fun parse_tolerance_units ::
  "(string \<Rightarrow> bool) \<Rightarrow> string \<Rightarrow> string list
     \<Rightarrow> (error + (string option \<times> string option)) \<times> string list" where
  "parse_tolerance_units float_accepts pc_tol_str [] = (Inr (None, None), [])"
| "parse_tolerance_units float_accepts pc_tol_str (unit # units) =
     (if py_in unit pc_tol_str then
        (if unit = [] then (Inl ValueError, [])
         else (case py_split unit pc_tol_str of
                 [] \<Rightarrow> (Inl IndexError, [])
               | piece # _ \<Rightarrow>
                   (let tol = py_strip piece;
                        logged =
                          (if \<not> py_in ('' '' @ unit) pc_tol_str
                           then [''Missing whitespace in precursor mass tolerance: '' @ pc_tol_str
                                   @ '' Adding it: '' @ tol @ '' '' @ unit]
                           else [])
                    in if \<not> float_accepts tol then (Inl ValueError, logged)
                       else (Inr (Some tol,
                                  Some (if unit = ''da'' then py_capitalize unit else unit)),
                             logged))))
      else parse_tolerance_units float_accepts pc_tol_str units)"

definition default_units :: "string list" where
  "default_units = [''ppm'', ''da'']"

definition parse_tolerance ::
  "(string \<Rightarrow> bool) \<Rightarrow> string \<Rightarrow> string list
     \<Rightarrow> (error + (string option \<times> string option)) \<times> string list" where
  "parse_tolerance float_accepts pc_tol_str units =
     parse_tolerance_units float_accepts (py_lower pc_tol_str) units"

text \<open>A recogniser of unsigned decimal integers, all of which \<^verbatim>\<open>float\<close> accepts.\<close>

definition decimal_digits :: "string \<Rightarrow> bool" where
  "decimal_digits s = (s \<noteq> [] \<and> list_all (\<lambda>c. c \<in> set ''0123456789'') s)"

section \<open>Modification descriptors\<close>

text \<open>
  \<^verbatim>\<open>re.search(key + "(.+?)(;|$)", m)\<close> for a literal \<open>key\<close>, returning \<^verbatim>\<open>group(1)\<close> of
  the leftmost match. The group is at least one character other than a newline and is
  extended lazily until a semicolon follows or the text ends (\<^verbatim>\<open>$\<close> also matches before a
  final newline).
\<close>

fun lazy_group :: "string \<Rightarrow> string \<Rightarrow> string option" where
  "lazy_group acc [] = Some acc"
| "lazy_group acc (c # cs) =
     (if c = CHR '';'' then Some acc
      else if c = CHR 0x0A then (if cs = [] then Some acc else None)
      else lazy_group (acc @ [c]) cs)"

definition match_group :: "string \<Rightarrow> string option" where
  "match_group rest =
     (case rest of
        [] \<Rightarrow> None
      | c # cs \<Rightarrow> if c = CHR 0x0A then None else lazy_group [c] cs)"

fun re_search_group :: "string \<Rightarrow> string \<Rightarrow> string option" where
  "re_search_group key [] = None"
| "re_search_group key (c # cs) =
     (if prefix key (c # cs)
      then (case match_group (drop (length key) (c # cs)) of
              Some g \<Rightarrow> Some g
            | None \<Rightarrow> re_search_group key cs)
      else re_search_group key cs)"

text \<open>
  The warning ledger \<^verbatim>\<open>self.warnings\<close>, and
  \<^verbatim>\<open>self.warnings[msg] = self.warnings.get(msg, 0) + 1\<close>.
\<close>

type_synonym ledger = "string \<rightharpoonup> nat"

definition warn :: "ledger \<Rightarrow> string \<Rightarrow> ledger" where
  "warn warnings msg = warnings(msg \<mapsto> (case warnings msg of None \<Rightarrow> 0 | Some n \<Rightarrow> n) + 1)"

definition no_ta_message :: string where
  "no_ta_message = ''Warning no TA= specified. Setting to N-term or C-term if possible.''"

definition skipping_message :: string where
  "skipping_message = ''Reassignment not possible. Skipping.''"

text \<open>
  The body of the loop of \<^verbatim>\<open>openms_ify_mods\<close> for one descriptor \<open>m\<close>: the annotations it
  appends to \<^verbatim>\<open>oms_mods\<close> and the ledger afterwards. \<open>get_by_accession\<close> is the lookup of
  the Unimod database, which is not part of these sources: it gives the name of the entry
  with the accession, if there is one. \<^verbatim>\<open>.group(1)\<close> of a failed search raises
  \<^verbatim>\<open>AttributeError\<close>.
\<close>

definition format_terminal :: "string \<Rightarrow> string \<Rightarrow> string \<Rightarrow> string" where
  "format_terminal name pp a =
     (if a \<in> {''C-term'', ''N-term''} then name @ '' ('' @ pp @ '')''
      else name @ '' ('' @ pp @ '' '' @ a @ '')'')"

definition openms_ify_mod ::
  "(string \<Rightarrow> string option) \<Rightarrow> ledger \<Rightarrow> string \<Rightarrow> error + (string list \<times> ledger)" where
  "openms_ify_mod get_by_accession warnings m =
     (if \<not> py_in ''AC=UNIMOD'' m \<and> \<not> py_in ''AC=Unimod'' m then Inl ValueError
      else case re_search_group ''NT='' m of
        None \<Rightarrow> Inl AttributeError
      | Some nt \<Rightarrow>
     (case re_search_group ''AC='' m of
        None \<Rightarrow> Inl AttributeError
      | Some accession \<Rightarrow>
     (let name = (case get_by_accession accession of
                    None \<Rightarrow> py_capitalize nt
                  | Some ptm_name \<Rightarrow> ptm_name);
          pp = (case re_search_group ''PP='' m of None \<Rightarrow> ''Anywhere'' | Some p \<Rightarrow> p);
          (ta, warnings') =
            (case re_search_group ''TA='' m of
               None \<Rightarrow>
                 (let w = warn warnings no_ta_message
                  in if py_in ''C-term'' pp then (''C-term'', w)
                     else if py_in ''N-term'' pp then (''N-term'', w)
                     else ('''', warn w skipping_message))
             | Some t \<Rightarrow> (t, warnings));
          aa = py_split '','' ta
      in Inr (if pp \<in> {''Protein N-term'', ''Protein C-term''}
              then map (format_terminal name pp) aa
              else if pp \<in> {''Any N-term'', ''Any C-term''}
              then map (format_terminal name (py_replace ''Any '' '''' pp)) aa
              else map (\<lambda>a. name @ '' ('' @ a @ '')'') aa,
              warnings'))))"

fun openms_ify_loop ::
  "(string \<Rightarrow> string option) \<Rightarrow> ledger \<Rightarrow> string list \<Rightarrow> string list
     \<Rightarrow> error + (string \<times> ledger)" where
  "openms_ify_loop get_by_accession warnings oms_mods [] =
     Inr (py_join '','' oms_mods, warnings)"
| "openms_ify_loop get_by_accession warnings oms_mods (m # ms) =
     (case openms_ify_mod get_by_accession warnings m of
        Inl e \<Rightarrow> Inl e
      | Inr (new_mods, warnings') \<Rightarrow>
          openms_ify_loop get_by_accession warnings' (oms_mods @ new_mods) ms)"

definition openms_ify_mods ::
  "(string \<Rightarrow> string option) \<Rightarrow> ledger \<Rightarrow> string list \<Rightarrow> error + (string \<times> ledger)" where
  "openms_ify_mods get_by_accession warnings sdrf_mods =
     openms_ify_loop get_by_accession warnings [] sdrf_mods"

section \<open>Properties of the TMT plex inference\<close>

text \<open>
  C1 (as amended). For every set of label tokens the result of \<^verbatim>\<open>infer_tmtplex\<close> follows the
  priority ladder: it is tmt18plex exactly when the set has more than 16 members or holds
  TMT134C or TMT135N; otherwise tmt16plex exactly when it has more than 11 members or holds one
  of TMT134N, TMT133C, TMT133N, TMT132C, TMT132N; otherwise tmt11plex exactly when it has 11
  members or holds TMT131C; otherwise tmt10plex exactly when it has more than 6 members;
  otherwise tmt6plex. In particular an 11-member set that holds TMT131C and none of the markers
  of the two rungs above resolves tmt11plex, a set of 12 to 16 members without TMT134C and
  TMT135N resolves tmt16plex, and a set without any marker token resolves by its size alone
  at the boundary sizes 6, 7, 10, 11, 12, 16, 17 and 18.
\<close>

theorem infer_tmtplex_ladder:
  "(infer_tmtplex S = ''tmt18plex'' \<longleftrightarrow> 16 < card S \<or> S \<inter> tmt18_markers \<noteq> {})
 \<and> (infer_tmtplex S = ''tmt16plex'' \<longleftrightarrow>
       \<not> (16 < card S \<or> S \<inter> tmt18_markers \<noteq> {}) \<and> (11 < card S \<or> S \<inter> tmt16_markers \<noteq> {}))
 \<and> (infer_tmtplex S = ''tmt11plex'' \<longleftrightarrow>
       \<not> (16 < card S \<or> S \<inter> tmt18_markers \<noteq> {}) \<and> \<not> (11 < card S \<or> S \<inter> tmt16_markers \<noteq> {})
       \<and> (card S = 11 \<or> ''TMT131C'' \<in> S))
 \<and> (infer_tmtplex S = ''tmt10plex'' \<longleftrightarrow>
       \<not> (16 < card S \<or> S \<inter> tmt18_markers \<noteq> {}) \<and> \<not> (11 < card S \<or> S \<inter> tmt16_markers \<noteq> {})
       \<and> \<not> (card S = 11 \<or> ''TMT131C'' \<in> S) \<and> 6 < card S)
 \<and> (infer_tmtplex S = ''tmt6plex'' \<longleftrightarrow>
       \<not> (16 < card S \<or> S \<inter> tmt18_markers \<noteq> {}) \<and> \<not> (11 < card S \<or> S \<inter> tmt16_markers \<noteq> {})
       \<and> \<not> (card S = 11 \<or> ''TMT131C'' \<in> S) \<and> \<not> 6 < card S)
 \<and> (card S = 11 \<and> ''TMT131C'' \<in> S \<and> S \<inter> (tmt18_markers \<union> tmt16_markers) = {}
       \<longrightarrow> infer_tmtplex S = ''tmt11plex'')
 \<and> (12 \<le> card S \<and> card S \<le> 16 \<and> S \<inter> tmt18_markers = {}
       \<longrightarrow> infer_tmtplex S = ''tmt16plex'')
 \<and> (S \<inter> (tmt18_markers \<union> tmt16_markers \<union> {''TMT131C''}) = {} \<longrightarrow>
       (card S = 6 \<longrightarrow> infer_tmtplex S = ''tmt6plex'')
     \<and> (card S = 7 \<or> card S = 10 \<longrightarrow> infer_tmtplex S = ''tmt10plex'')
     \<and> (card S = 11 \<longrightarrow> infer_tmtplex S = ''tmt11plex'')
     \<and> (card S = 12 \<or> card S = 16 \<longrightarrow> infer_tmtplex S = ''tmt16plex'')
     \<and> (card S = 17 \<or> card S = 18 \<longrightarrow> infer_tmtplex S = ''tmt18plex''))"
  unfolding infer_tmtplex_def tmt18_markers_def tmt16_markers_def
  by auto

theorem infer_tmtplex_ladder_witness:
  "card labels_11plex = 11 \<and> ''TMT131C'' \<in> labels_11plex
   \<and> labels_11plex \<inter> (tmt18_markers \<union> tmt16_markers) = {}
   \<and> infer_tmtplex labels_11plex = ''tmt11plex''"
proof -
  have h: "card labels_11plex = 11 \<and> ''TMT131C'' \<in> labels_11plex
    \<and> labels_11plex \<inter> (tmt18_markers \<union> tmt16_markers) = {}"
    by (simp add: labels_11plex_def tmt18_markers_def tmt16_markers_def)
  have "card labels_11plex = 11 \<and> ''TMT131C'' \<in> labels_11plex
      \<and> labels_11plex \<inter> (tmt18_markers \<union> tmt16_markers) = {}
       \<longrightarrow> infer_tmtplex labels_11plex = ''tmt11plex''"
    using infer_tmtplex_ladder [of labels_11plex] by (elim conjE)
  with h show ?thesis by (elim conjE impE) simp_all
qed

text \<open>
  The claim as written, for every 11-member set that holds TMT131C, fails on eleven channels of
  an 18-plex kit: the first rung sees TMT135N.
\<close>

theorem infer_tmtplex_eleven_counterexample:
  "card labels_11_of_18plex = 11 \<and> ''TMT131C'' \<in> labels_11_of_18plex
   \<and> infer_tmtplex labels_11_of_18plex = ''tmt18plex''
   \<and> infer_tmtplex labels_11_of_18plex \<noteq> ''tmt11plex''"
  by (simp add: infer_tmtplex_def labels_11_of_18plex_def)

section \<open>Properties of the file-extension remapping\<close>

lemma find_first_match:
  "(\<forall>x \<in> set xs. \<not> P x) \<Longrightarrow> P y \<Longrightarrow> find P (xs @ y # ys) = Some y"
  by (induction xs) auto

lemma convert_loop_find:
  "convert_loop raw d =
     (case find (rule_matches raw) d of
        None \<Rightarrow> Inr raw
      | Some (cur, tgt) \<Rightarrow>
          if list_ex (\<lambda>x. suffix x (py_removesuffix raw cur @ tgt)) possible_extension
          then Inr (py_removesuffix raw cur @ tgt) else Inl RuntimeError)"
  by (induction d) (auto simp: rule_matches_def Let_def)

text \<open>
  C10. Without a remap specification \<^verbatim>\<open>get_openms_file_name\<close> returns the name unchanged.
  With a specification that is read into the rules \<open>d\<close>, a name whose lower-cased form ends
  with no rule's lower-cased source extension is returned unchanged, without any error and
  without the test against the allowed extensions, whatever its own extension is; and when
  rules match, only the first matching rule in the order of the rules is applied: the
  function rewrites with it, validates and returns.
\<close>

theorem get_openms_file_name_first_match:
  "get_openms_file_name raw None = Inr raw
 \<and> (build_extension_dict (py_split '','' spec) [] = Inr d \<longrightarrow>
      ((\<forall>rule \<in> set d. \<not> suffix (py_lower (fst rule)) (py_lower raw)) \<longrightarrow>
         get_openms_file_name raw (Some spec) = Inr raw)
    \<and> (\<forall>d1 cur tgt d2.
         d = d1 @ (cur, tgt) # d2
         \<and> (\<forall>rule \<in> set d1. \<not> suffix (py_lower (fst rule)) (py_lower raw))
         \<and> suffix (py_lower cur) (py_lower raw) \<longrightarrow>
         get_openms_file_name raw (Some spec) =
           (if list_ex (\<lambda>x. suffix x (py_removesuffix raw cur @ tgt)) possible_extension
            then Inr (py_removesuffix raw cur @ tgt) else Inl RuntimeError)))"
proof (intro conjI impI allI)
  show "get_openms_file_name raw None = Inr raw"
    by (simp add: get_openms_file_name_def)
next
  assume b: "build_extension_dict (py_split '','' spec) [] = Inr d"
    and n: "\<forall>rule \<in> set d. \<not> suffix (py_lower (fst rule)) (py_lower raw)"
  from n have "find (rule_matches raw) d = None"
    by (auto simp: find_None_iff rule_matches_def)
  with b show "get_openms_file_name raw (Some spec) = Inr raw"
    by (simp add: get_openms_file_name_def convert_loop_find)
next
  fix d1 cur tgt d2
  assume b: "build_extension_dict (py_split '','' spec) [] = Inr d"
    and h: "d = d1 @ (cur, tgt) # d2
         \<and> (\<forall>rule \<in> set d1. \<not> suffix (py_lower (fst rule)) (py_lower raw))
         \<and> suffix (py_lower cur) (py_lower raw)"
  have "find (rule_matches raw) (d1 @ (cur, tgt) # d2) = Some (cur, tgt)"
    using h by (intro find_first_match) (auto simp: rule_matches_def)
  with b h show "get_openms_file_name raw (Some spec) =
           (if list_ex (\<lambda>x. suffix x (py_removesuffix raw cur @ tgt)) possible_extension
            then Inr (py_removesuffix raw cur @ tgt) else Inl RuntimeError)"
    by (simp add: get_openms_file_name_def convert_loop_find)
qed

text \<open>
  The name \<^verbatim>\<open>sample.wiff\<close> matches neither rule of \<^verbatim>\<open>raw:mzML,d:mzML\<close> and comes back as it is,
  although \<^verbatim>\<open>wiff\<close> is not an allowed extension; \<^verbatim>\<open>sample.raw\<close> is rewritten by the first rule.
\<close>

theorem get_openms_file_name_first_match_witness:
  "build_extension_dict (py_split '','' ''raw:mzML,d:mzML'') [] = Inr [(''raw'', ''mzML''), (''d'', ''mzML'')]
   \<and> (\<forall>rule \<in> set [(''raw'', ''mzML''), (''d'', ''mzML'')].
         \<not> suffix (py_lower (fst rule)) (py_lower ''sample.wiff''))
   \<and> get_openms_file_name ''sample.wiff'' (Some ''raw:mzML,d:mzML'') = Inr ''sample.wiff''
   \<and> get_openms_file_name ''sample.raw'' (Some ''raw:mzML,d:mzML'') = Inr ''sample.mzML''"
proof -
  let ?d = "[(''raw'', ''mzML''), (''d'', ''mzML'')]"
  have b: "build_extension_dict (py_split '','' ''raw:mzML,d:mzML'') [] = Inr ?d"
    by (simp add: py_split_def)
  have n: "\<forall>rule \<in> set ?d. \<not> suffix (py_lower (fst rule)) (py_lower ''sample.wiff'')"
    by (simp add: py_lower_def lower_char_def ascii_upper_def ascii_lower_def suffix_to_prefix)
  have m: "?d = [] @ (''raw'', ''mzML'') # [(''d'', ''mzML'')]
      \<and> (\<forall>rule \<in> set []. \<not> suffix (py_lower (fst rule)) (py_lower ''sample.raw''))
      \<and> suffix (py_lower ''raw'') (py_lower ''sample.raw'')"
    by (simp add: py_lower_def lower_char_def ascii_upper_def ascii_lower_def suffix_to_prefix)
  note t = get_openms_file_name_first_match [of _ "''raw:mzML,d:mzML''" ?d]
  have 1: "get_openms_file_name ''sample.wiff'' (Some ''raw:mzML,d:mzML'') = Inr ''sample.wiff''"
    using t [of "''sample.wiff''"] b n by blast
  have 2: "get_openms_file_name ''sample.raw'' (Some ''raw:mzML,d:mzML'') =
     (if list_ex (\<lambda>x. suffix x (py_removesuffix ''sample.raw'' ''raw'' @ ''mzML'')) possible_extension
            then Inr (py_removesuffix ''sample.raw'' ''raw'' @ ''mzML'') else Inl RuntimeError)"
    using t [of "''sample.raw''"] b m by blast
  have 3: "get_openms_file_name ''sample.raw'' (Some ''raw:mzML,d:mzML'') = Inr ''sample.mzML''"
    unfolding 2 by (simp add: py_removesuffix_def possible_extension_def suffix_to_prefix)
  from b n 1 3 show ?thesis by blast
qed

section \<open>Properties of the tolerance parser\<close>

lemma parse_tolerance_units_none:
  "(\<forall>unit \<in> set units. \<not> py_in unit s)
   \<Longrightarrow> parse_tolerance_units float_accepts s units = (Inr (None, None), [])"
  by (induction units) auto

text \<open>
  C7. When none of the unit tokens occurs in the lower-cased cell, \<^verbatim>\<open>parse_tolerance\<close>
  returns \<^verbatim>\<open>(None, None)\<close> and logs nothing. For the cell \<^verbatim>\<open>10ppm\<close> and the default units
  it returns \<^verbatim>\<open>("10", "ppm")\<close> and logs exactly one warning, the missing-whitespace message
  (given that \<^verbatim>\<open>float\<close> accepts \<^verbatim>\<open>10\<close>).
\<close>

theorem parse_tolerance_none_and_10ppm:
  "((\<forall>unit \<in> set units. \<not> py_in unit (py_lower cell)) \<longrightarrow>
      parse_tolerance float_accepts cell units = (Inr (None, None), []))
 \<and> (float_accepts ''10'' \<longrightarrow>
      parse_tolerance float_accepts ''10ppm'' default_units =
        (Inr (Some ''10'', Some ''ppm''),
         [''Missing whitespace in precursor mass tolerance: 10ppm Adding it: 10 ppm'']))"
proof (intro conjI impI)
  assume "\<forall>unit \<in> set units. \<not> py_in unit (py_lower cell)"
  then show "parse_tolerance float_accepts cell units = (Inr (None, None), [])"
    by (simp add: parse_tolerance_def parse_tolerance_units_none)
next
  assume "float_accepts ''10''"
  moreover have "py_lower ''10ppm'' = ''10ppm''"
    by (simp add: py_lower_def lower_char_def ascii_upper_def ascii_lower_def)
  moreover have "py_split ''ppm'' ''10ppm'' = [''10'', '''']"
    by (simp add: py_split_def)
  moreover have "py_strip ''10'' = ''10''"
    by (simp add: py_strip_def py_isspace_def)
  ultimately show "parse_tolerance float_accepts ''10ppm'' default_units =
        (Inr (Some ''10'', Some ''ppm''),
         [''Missing whitespace in precursor mass tolerance: 10ppm Adding it: 10 ppm''])"
    by (simp add: parse_tolerance_def default_units_def)
qed

text \<open>The cell \<^verbatim>\<open>10 mmu\<close> holds neither unit; the digit strings stand in for \<^verbatim>\<open>float\<close>.\<close>

theorem parse_tolerance_none_and_10ppm_witness:
  "(\<forall>unit \<in> set default_units. \<not> py_in unit (py_lower ''10 mmu''))
 \<and> decimal_digits ''10''
 \<and> parse_tolerance decimal_digits ''10 mmu'' default_units = (Inr (None, None), [])
 \<and> parse_tolerance decimal_digits ''10ppm'' default_units =
        (Inr (Some ''10'', Some ''ppm''),
         [''Missing whitespace in precursor mass tolerance: 10ppm Adding it: 10 ppm''])"
proof -
  have u: "\<forall>unit \<in> set default_units. \<not> py_in unit (py_lower ''10 mmu'')"
    by (simp add: default_units_def py_lower_def lower_char_def ascii_upper_def ascii_lower_def)
  have f: "decimal_digits ''10''"
    by (simp add: decimal_digits_def)
  from parse_tolerance_none_and_10ppm [of default_units "''10 mmu''" decimal_digits] u f
  show ?thesis by blast
qed

end
